theory Spec2Isabelle
  imports Complex_Main
begin

section \<open>Telemetry pipeline of the monitored Flask application\<close>

text \<open>
  The development embeds the telemetry code of \<^verbatim>\<open>app.py\<close> (the snapshot
  \<^verbatim>\<open>app_20250618114951.py\<close>, version 3.0.0, and the error handlers of the snapshot
  \<^verbatim>\<open>app_20250706113427.py\<close>, version 2.0.0) and the worker pool of
  \<^verbatim>\<open>load-test.py\<close>.

  Python floats are modelled as \<^typ>\<open>real\<close> and Python integers as \<^typ>\<open>int\<close>; the
  request handlers and the background sampler are modelled sequentially, one call at a
  time, with every reading of the outside world (clock, uuid, psutil, random) passed in
  as an argument.
\<close>

subsection \<open>Exceptions\<close>

text \<open>
  A Python exception is a value. \<open>HTTPException\<close> stands for werkzeug's class and its
  subclasses (what \<^verbatim>\<open>abort(n)\<close> and the router raise): it carries a status code and a
  description. Every other exception carries its class name and \<^verbatim>\<open>str(e)\<close>.
\<close>

datatype py_exception =
    HTTPException (exc_name: string) (code: int) (description: string) (exc_str: string)
  | OtherException (exc_name: string) (exc_str: string)

definition ZeroDivisionError :: py_exception where
  "ZeroDivisionError = OtherException ''ZeroDivisionError'' ''division by zero''"

text \<open>Python's true division \<^verbatim>\<open>a / b\<close> on integers raises when \<^verbatim>\<open>b\<close> is zero.\<close>

definition py_truediv :: "int \<Rightarrow> int \<Rightarrow> py_exception + real" where
  "py_truediv a b = (if b = 0 then Inl ZeroDivisionError else Inr (real_of_int a / real_of_int b))"

subsection \<open>The system monitor and its health score\<close>

text \<open>
  \<^verbatim>\<open>
  class SystemMonitor:
      def __init__(self):
          self.start_time = time.time()
          self.error_count = 0
          self.total_requests = 0
  \<close>
\<close>

record SystemMonitor =
  start_time :: real
  error_count :: int
  total_requests :: int

definition SystemMonitor_init :: "real \<Rightarrow> SystemMonitor" where
  "SystemMonitor_init now = \<lparr>start_time = now, error_count = 0, total_requests = 0\<rparr>"

text \<open>
  \<^verbatim>\<open>
  def calculate_health_score(self, cpu_percent, memory_percent, disk_percent):
      score = 100
      if cpu_percent > 80: score -= 30
      elif cpu_percent > 60: score -= 15
      if memory_percent > 90: score -= 25
      elif memory_percent > 70: score -= 10
      if disk_percent > 95: score -= 20
      elif disk_percent > 85: score -= 10
      if self.total_requests > 0:
          current_error_rate = (self.error_count / self.total_requests) * 100
          if current_error_rate > 10: score -= 20
          elif current_error_rate > 5: score -= 10
      return max(0, score)
  \<close>
  The method takes three readings and reads the two counters of \<open>self\<close>.
\<close>

definition calculate_health_score ::
  "SystemMonitor \<Rightarrow> real \<Rightarrow> real \<Rightarrow> real \<Rightarrow> py_exception + int" where
  "calculate_health_score self cpu_percent memory_percent disk_percent =
     (let score = 100;
          score = (if cpu_percent > 80 then score - 30
                   else if cpu_percent > 60 then score - 15 else score);
          score = (if memory_percent > 90 then score - 25
                   else if memory_percent > 70 then score - 10 else score);
          score = (if disk_percent > 95 then score - 20
                   else if disk_percent > 85 then score - 10 else score)
      in if total_requests self > 0 then
           (case py_truediv (error_count self) (total_requests self) of
              Inl e \<Rightarrow> Inl e
            | Inr q \<Rightarrow>
                (let current_error_rate = q * 100;
                     score = (if current_error_rate > 10 then score - 20
                              else if current_error_rate > 5 then score - 10 else score)
                 in Inr (max 0 score)))
         else Inr (max 0 score))"

text \<open>
  The scoring rule in the words of the specification, with the error rate as a fourth
  argument: start at 100, one penalty tier per dimension, clamp at 0.
\<close>

definition spec_score :: "real \<Rightarrow> real \<Rightarrow> real \<Rightarrow> real \<Rightarrow> int" where
  "spec_score cpu_pct mem_pct disk_pct error_rate_pct =
     max 0 (100
       - (if cpu_pct > 80 then 30 else if cpu_pct > 60 then 15 else 0)
       - (if mem_pct > 90 then 25 else if mem_pct > 70 then 10 else 0)
       - (if disk_pct > 95 then 20 else if disk_pct > 85 then 10 else 0)
       - (if error_rate_pct > 10 then 20 else if error_rate_pct > 5 then 10 else 0))"

subsection \<open>Module-level metrics and the application state\<close>

text \<open>
  The Prometheus objects of the module are global variables. A labelled counter is a
  function from its label values to the count, a labelled histogram a function from its
  label values to the list of observed values, a gauge its current value (a gauge of
  \<^verbatim>\<open>prometheus_client\<close> starts at 0). \<open>logger\<close> is the list of records written
  so far, oldest first.
\<close>

datatype log_record =
    LogError string
  | LogErrorDetails string "(string \<times> string) list"
  | LogRequest string string string int real nat nat
  | LogMetricsUpdated real real int

record app_state =
  system_monitor :: SystemMonitor
  http_requests_total :: "string \<times> string \<times> int \<Rightarrow> nat"
  http_request_duration_seconds :: "string \<times> string \<Rightarrow> real list"
  http_request_size_bytes :: "string \<times> string \<Rightarrow> nat list"
  http_response_size_bytes :: "string \<times> string \<Rightarrow> nat list"
  system_cpu_usage_percent :: real
  system_memory_usage_bytes :: real
  system_memory_available_bytes :: real
  system_disk_usage_percent :: real
  active_connections :: real
  database_connection_pool_size :: real
  app_uptime_seconds :: real
  app_health_score :: real
  error_rate :: real
  last_error_timestamp :: real
  logger :: "log_record list"

definition init_state :: "real \<Rightarrow> app_state" where
  "init_state now =
     \<lparr>system_monitor = SystemMonitor_init now,
      http_requests_total = (\<lambda>_. 0),
      http_request_duration_seconds = (\<lambda>_. []),
      http_request_size_bytes = (\<lambda>_. []),
      http_response_size_bytes = (\<lambda>_. []),
      system_cpu_usage_percent = 0,
      system_memory_usage_bytes = 0,
      system_memory_available_bytes = 0,
      system_disk_usage_percent = 0,
      active_connections = 0,
      database_connection_pool_size = 0,
      app_uptime_seconds = 0,
      app_health_score = 0,
      error_rate = 0,
      last_error_timestamp = 0,
      logger = []\<rparr>"

subsection \<open>Error tracking: the two counters and the error-rate gauge\<close>

text \<open>
  \<^verbatim>\<open>
  def increment_error(self):
      self.error_count += 1
      last_error_timestamp.set(time.time())
      if self.total_requests > 0:
          error_rate.set((self.error_count / self.total_requests) * 100)

  def increment_request(self):
      self.total_requests += 1
      if self.total_requests > 0:
          error_rate.set((self.error_count / self.total_requests) * 100)
  \<close>
  \<open>now\<close> is the reading of \<^verbatim>\<open>time.time()\<close>. A result \<open>Inl e\<close> means that the call
  raised \<open>e\<close>.
\<close>

definition increment_error :: "real \<Rightarrow> app_state \<Rightarrow> py_exception + app_state" where
  "increment_error now s =
     (let self = (system_monitor s)\<lparr>error_count := error_count (system_monitor s) + 1\<rparr>;
          s = s\<lparr>system_monitor := self, last_error_timestamp := now\<rparr>
      in if total_requests self > 0 then
           (case py_truediv (error_count self) (total_requests self) of
              Inl e \<Rightarrow> Inl e
            | Inr q \<Rightarrow> Inr (s\<lparr>error_rate := q * 100\<rparr>))
         else Inr s)"

definition increment_request :: "app_state \<Rightarrow> py_exception + app_state" where
  "increment_request s =
     (let self = (system_monitor s)\<lparr>total_requests := total_requests (system_monitor s) + 1\<rparr>;
          s = s\<lparr>system_monitor := self\<rparr>
      in if total_requests self > 0 then
           (case py_truediv (error_count self) (total_requests self) of
              Inl e \<Rightarrow> Inl e
            | Inr q \<Rightarrow> Inr (s\<lparr>error_rate := q * 100\<rparr>))
         else Inr s)"

text \<open>
  Any interleaving of the two operations, from the state of a fresh process: the list
  gives the calls in order, an error call with its clock reading.
\<close>

datatype tracker_op = RecordError real | RecordRequest

fun run_tracker :: "tracker_op list \<Rightarrow> app_state \<Rightarrow> py_exception + app_state" where
  "run_tracker [] s = Inr s"
| "run_tracker (RecordError now # ops) s =
     (case increment_error now s of Inl e \<Rightarrow> Inl e | Inr s' \<Rightarrow> run_tracker ops s')"
| "run_tracker (RecordRequest # ops) s =
     (case increment_request s of Inl e \<Rightarrow> Inl e | Inr s' \<Rightarrow> run_tracker ops s')"

text \<open>
  The health-check route reports the rate for display, rounded to two decimals:
  \<^verbatim>\<open>
  "error_rate_percent": round((system_monitor.error_count
                               / max(system_monitor.total_requests, 1)) * 100, 2)
  \<close>
  Python's \<^verbatim>\<open>round\<close> acts on the binary value of the float, which a real number
  does not determine, so the rounding is an argument, \<open>round2\<close>.
\<close>

definition health_check_error_rate_percent ::
  "(real \<Rightarrow> real) \<Rightarrow> SystemMonitor \<Rightarrow> py_exception + real" where
  "health_check_error_rate_percent round2 self =
     (case py_truediv (error_count self) (max (total_requests self) 1) of
        Inl e \<Rightarrow> Inl e
      | Inr q \<Rightarrow> Inr (round2 (q * 100)))"

subsection \<open>Requests, responses and the outside world of one request\<close>

text \<open>
  A request has its method, its path and the length of its body
  (\<^verbatim>\<open>len(request.get_data())\<close>). The pre-hook attaches two attributes to it,
  \<^verbatim>\<open>start_time\<close> and \<^verbatim>\<open>request_id\<close>, always both: \<open>attrs\<close> is \<open>None\<close> until then.
  A response has a status code and a body, which is either the flat dictionary given to
  \<^verbatim>\<open>jsonify\<close> or other data.
\<close>

record request =
  req_method :: string
  path :: string
  data_len :: nat
  attrs :: "(real \<times> string) option"

datatype body = Json "(string \<times> string) list" | Data string

record response =
  status_code :: int
  body :: body

datatype view_result = Returns response | Raises py_exception

text \<open>
  What the code reads from outside while it serves one request: the clock in the pre-hook,
  the error handler and the post-hook, the two \<^verbatim>\<open>uuid4\<close> values,
  \<^verbatim>\<open>datetime.now().isoformat()\<close>, what the routed view function does when it is called
  (the views are external collaborators: any response, any exception), what the body of
  the \<^verbatim>\<open>try\<close> block of the \<^verbatim>\<open>/metrics\<close> view does, the byte length of the final
  response, and werkzeug's class name, description and \<^verbatim>\<open>str\<close> for the exception of a
  status code.
\<close>

record world =
  time_before :: real
  uuid_request :: string
  view_call :: view_result
  generate_latest_result :: "py_exception + string"
  time_error :: real
  uuid_error :: string
  datetime_now :: string
  time_after :: real
  response_len :: nat
  werkzeug_texts :: "int \<Rightarrow> string \<times> string \<times> string"

definition abort :: "world \<Rightarrow> int \<Rightarrow> py_exception" where
  "abort w c = (case werkzeug_texts w c of (n, d, st) \<Rightarrow> HTTPException n c d st)"

subsection \<open>Request hooks (version 3.0.0)\<close>

text \<open>
  \<^verbatim>\<open>
  @app.before_request
  def before_request():
      request.start_time = time.time()
      request.request_id = str(uuid.uuid4())
      # Skip metrics for static files and health checks
      if request.path not in ['/favicon.ico', '/health', '/metrics']:
          system_monitor.increment_request()
  \<close>
\<close>

definition before_request ::
  "world \<Rightarrow> request \<Rightarrow> app_state \<Rightarrow> py_exception + (request \<times> app_state)" where
  "before_request w rq s =
     (let rq = rq\<lparr>attrs := Some (time_before w, uuid_request w)\<rparr>
      in if path rq \<notin> set [''/favicon.ico'', ''/health'', ''/metrics''] then
           (case increment_request s of Inl e \<Rightarrow> Inl e | Inr s' \<Rightarrow> Inr (rq, s'))
         else Inr (rq, s))"

text \<open>
  \<^verbatim>\<open>
  @app.after_request
  def after_request(response):
      if hasattr(request, 'start_time') and request.path not in ['/favicon.ico', '/metrics']:
          duration = time.time() - request.start_time
          http_requests_total.labels(method=request.method, endpoint=request.path,
                                     status_code=response.status_code).inc()
          http_request_duration_seconds.labels(method=request.method,
                                               endpoint=request.path).observe(duration)
          request_size = len(request.get_data())
          response_size = len(response.get_data())
          http_request_size_bytes.labels(method=request.method,
                                         endpoint=request.path).observe(request_size)
          http_response_size_bytes.labels(method=request.method,
                                          endpoint=request.path).observe(response_size)
          logger.info(f"Request {request.request_id} - ...")
      return response
  \<close>
\<close>

definition after_request ::
  "world \<Rightarrow> request \<Rightarrow> response \<Rightarrow> app_state \<Rightarrow> response \<times> app_state" where
  "after_request w rq response s =
     (case attrs rq of
        Some (t0, request_id) \<Rightarrow>
          if path rq \<notin> set [''/favicon.ico'', ''/metrics''] then
            (let duration = time_after w - t0;
                 k3 = (req_method rq, path rq, status_code response);
                 k2 = (req_method rq, path rq);
                 s = s\<lparr>http_requests_total :=
                         (http_requests_total s)(k3 := http_requests_total s k3 + 1)\<rparr>;
                 s = s\<lparr>http_request_duration_seconds :=
                         (http_request_duration_seconds s)
                           (k2 := http_request_duration_seconds s k2 @ [duration])\<rparr>;
                 request_size = data_len rq;
                 response_size = response_len w;
                 s = s\<lparr>http_request_size_bytes :=
                         (http_request_size_bytes s)
                           (k2 := http_request_size_bytes s k2 @ [request_size])\<rparr>;
                 s = s\<lparr>http_response_size_bytes :=
                         (http_response_size_bytes s)
                           (k2 := http_response_size_bytes s k2 @ [response_size])\<rparr>;
                 s = s\<lparr>logger := logger s @
                         [LogRequest request_id (req_method rq) (path rq) (status_code response)
                            duration request_size response_size]\<rparr>
             in (response, s))
          else (response, s)
      | None \<Rightarrow> (response, s))"

text \<open>
  \<^verbatim>\<open>
  @app.errorhandler(Exception)
  def handle_exception(e):
      system_monitor.increment_error()
      error_details = {
          'error_id': str(uuid.uuid4()),
          'timestamp': datetime.now().isoformat(),
          'path': request.path,
          'method': request.method,
          'error_type': type(e).__name__,
          'error_message': str(e),
          'request_id': getattr(request, 'request_id', 'unknown')
      }
      if isinstance(e, HTTPException):
          status_code = e.code
          message = e.description
      else:
          status_code = 500
          message = "Internal Server Error"
      logger.error(f"Error {error_details['error_id']}: {error_details}")
      return jsonify({
          'error': message,
          'error_id': error_details['error_id'],
          'timestamp': error_details['timestamp']
      }), status_code
  \<close>
\<close>

definition handle_exception ::
  "world \<Rightarrow> py_exception \<Rightarrow> request \<Rightarrow> app_state \<Rightarrow> py_exception + (response \<times> app_state)" where
  "handle_exception w e rq s =
     (case increment_error (time_error w) s of
        Inl e' \<Rightarrow> Inl e'
      | Inr s \<Rightarrow>
          (let error_id = uuid_error w;
               timestamp = datetime_now w;
               error_details =
                 [(''error_id'', error_id),
                  (''timestamp'', timestamp),
                  (''path'', path rq),
                  (''method'', req_method rq),
                  (''error_type'', exc_name e),
                  (''error_message'', exc_str e),
                  (''request_id'', (case attrs rq of Some (_, i) \<Rightarrow> i | None \<Rightarrow> ''unknown''))];
               (status, message) =
                 (case e of
                    HTTPException _ c d _ \<Rightarrow> (c, d)
                  | OtherException _ _ \<Rightarrow> (500, ''Internal Server Error''));
               s = s\<lparr>logger := logger s @ [LogErrorDetails error_id error_details]\<rparr>
           in Inr (\<lparr>status_code = status,
                     body = Json [(''error'', message),
                                  (''error_id'', error_id),
                                  (''timestamp'', timestamp)]\<rparr>, s)))"

subsection \<open>Routing and the request cycle (version 3.0.0)\<close>

text \<open>
  The paths registered with \<^verbatim>\<open>@app.route\<close>, in the order of the file; Flask adds the
  rule \<^verbatim>\<open>/static/<path:filename>\<close>. There is no rule for \<^verbatim>\<open>/health\<close> or
  \<^verbatim>\<open>/favicon.ico\<close>.
\<close>

definition url_map :: "string list" where
  "url_map = [''/'', ''/api/analytics'', ''/api/users'', ''/api/stress'',
              ''/api/simulate-error'', ''/metrics'', ''/api/config'', ''/api/health'',
              ''/api/products'', ''/api/orders'']"

definition static_rule :: "string \<Rightarrow> bool" where
  "static_rule p = (take 8 p = ''/static/'' \<and> 8 < length p)"

text \<open>
  \<^verbatim>\<open>
  @app.route('/metrics')
  def metrics():
      try:
          metrics_data = generate_latest()
          response_headers = {...}
          return metrics_data, 200, response_headers
      except Exception as e:
          logger.error(f"Error generating metrics: {e}")
          abort(500)
  \<close>
  The view returns its result and the log records it wrote.
\<close>

definition metrics :: "world \<Rightarrow> view_result \<times> log_record list" where
  "metrics w =
     (case generate_latest_result w of
        Inr metrics_data \<Rightarrow> (Returns \<lparr>status_code = 200, body = Data metrics_data\<rparr>, [])
      | Inl e \<Rightarrow> (Raises (abort w 500), [LogError (''Error generating metrics: '' @ exc_str e)]))"

text \<open>
  Every rule is registered for \<^verbatim>\<open>GET\<close>; \<^verbatim>\<open>/api/users\<close> is registered a second time
  with \<^verbatim>\<open>methods=['POST']\<close>.
\<close>

definition rule_methods :: "string \<Rightarrow> string list" where
  "rule_methods p = (if p = ''/api/users'' then [''POST'', ''GET''] else [''GET''])"

text \<open>
  Flask's dispatch. A path without a rule raises \<^verbatim>\<open>NotFound\<close>, an HTTP exception with
  code 404, before any view runs. On a path with a rule, Flask answers \<^verbatim>\<open>OPTIONS\<close>
  itself with an empty response of status 200, allows \<^verbatim>\<open>HEAD\<close> wherever \<^verbatim>\<open>GET\<close> is
  allowed, and raises \<^verbatim>\<open>MethodNotAllowed\<close>, an HTTP exception with code 405, for any
  other method the rules of the path do not list; no view runs in these cases either.
  Otherwise the view of the rule is called. Methods are compared as the upper-case
  names werkzeug gives them. The views other than \<^verbatim>\<open>metrics\<close> write to metrics
  outside \<^typ>\<open>app_state\<close> and never to the two counters of the monitor; their log
  lines are left out.
\<close>

definition dispatch_request :: "world \<Rightarrow> request \<Rightarrow> view_result \<times> log_record list" where
  "dispatch_request w rq =
     (if path rq \<in> set url_map \<or> static_rule (path rq) then
        (if req_method rq = ''OPTIONS''
         then (Returns \<lparr>status_code = 200, body = Data []\<rparr>, [])
         else if req_method rq \<in> set (rule_methods (path rq)) \<or> req_method rq = ''HEAD''
         then (if path rq = ''/metrics'' then metrics w else (view_call w, []))
         else (Raises (abort w 405), []))
      else (Raises (abort w 404), []))"

text \<open>
  Flask's \<^verbatim>\<open>full_dispatch_request\<close>: the pre-hook, then the view; an exception of either
  goes to the handler registered for \<^verbatim>\<open>Exception\<close>; the post-hook runs on the response
  of the view or of the handler. \<open>Inl e\<close> means that the handler itself raised.
\<close>

definition full_dispatch_request ::
  "world \<Rightarrow> request \<Rightarrow> app_state \<Rightarrow> py_exception + (response \<times> app_state)" where
  "full_dispatch_request w rq s =
     (let (rq, s, rv) =
            (case before_request w rq s of
               Inl e \<Rightarrow> (rq, s, Raises e)
             | Inr (rq', s') \<Rightarrow>
                 (case dispatch_request w rq' of
                    (rv, lines) \<Rightarrow> (rq', s'\<lparr>logger := logger s' @ lines\<rparr>, rv)))
      in case rv of
           Returns response \<Rightarrow> Inr (after_request w rq response s)
         | Raises e \<Rightarrow>
             (case handle_exception w e rq s of
                Inl e' \<Rightarrow> Inl e'
              | Inr (response, s') \<Rightarrow> Inr (after_request w rq response s')))"

text \<open>A run of the process: the requests served so far, one after the other.\<close>

fun serve :: "(world \<times> request) list \<Rightarrow> app_state \<Rightarrow> py_exception + app_state" where
  "serve [] s = Inr s"
| "serve ((w, rq) # rest) s =
     (case full_dispatch_request w rq s of
        Inl e \<Rightarrow> Inl e
      | Inr (response, s') \<Rightarrow> serve rest s')"

subsection \<open>Error handlers of version 2.0.0\<close>

text \<open>
  The snapshot \<^verbatim>\<open>app_20250706113427.py\<close> has other metrics and three handlers:
  \<^verbatim>\<open>
  @app.errorhandler(Exception)
  def handle_exception(e):
      error_counter.labels(endpoint=request.path, status_code="500").inc()
      active_requests.dec()
      logger.error(f"Unhandled exception: {e}")
      return jsonify({"error": "Internal Server Error", "message": str(e)}), 500

  @app.errorhandler(404)
  def page_not_found(e):
      error_counter.labels(endpoint=request.path, status_code="404").inc()
      active_requests.dec()
      return jsonify({"error": "Not Found",
                      "message": "The requested resource was not found"}), 404

  @app.errorhandler(403)
  def forbidden(e):
      error_counter.labels(endpoint=request.path, status_code="403").inc()
      active_requests.dec()
      return jsonify({"error": "Forbidden", "message": "Access denied"}), 403
  \<close>
\<close>

record state_20250706 =
  error_counter :: "string \<times> string \<Rightarrow> nat"
  active_requests :: real
  logger_20250706 :: "log_record list"

definition handle_exception_20250706 ::
  "py_exception \<Rightarrow> request \<Rightarrow> state_20250706 \<Rightarrow> response \<times> state_20250706" where
  "handle_exception_20250706 e rq s =
     (let k = (path rq, ''500'');
          s = s\<lparr>error_counter := (error_counter s)(k := error_counter s k + 1)\<rparr>;
          s = s\<lparr>active_requests := active_requests s - 1\<rparr>;
          s = s\<lparr>logger_20250706 := logger_20250706 s @
                  [LogError (''Unhandled exception: '' @ exc_str e)]\<rparr>
      in (\<lparr>status_code = 500,
            body = Json [(''error'', ''Internal Server Error''), (''message'', exc_str e)]\<rparr>, s))"

definition page_not_found ::
  "py_exception \<Rightarrow> request \<Rightarrow> state_20250706 \<Rightarrow> response \<times> state_20250706" where
  "page_not_found e rq s =
     (let k = (path rq, ''404'');
          s = s\<lparr>error_counter := (error_counter s)(k := error_counter s k + 1)\<rparr>;
          s = s\<lparr>active_requests := active_requests s - 1\<rparr>
      in (\<lparr>status_code = 404,
            body = Json [(''error'', ''Not Found''),
                         (''message'', ''The requested resource was not found'')]\<rparr>, s))"

definition forbidden ::
  "py_exception \<Rightarrow> request \<Rightarrow> state_20250706 \<Rightarrow> response \<times> state_20250706" where
  "forbidden e rq s =
     (let k = (path rq, ''403'');
          s = s\<lparr>error_counter := (error_counter s)(k := error_counter s k + 1)\<rparr>;
          s = s\<lparr>active_requests := active_requests s - 1\<rparr>
      in (\<lparr>status_code = 403,
            body = Json [(''error'', ''Forbidden''), (''message'', ''Access denied'')]\<rparr>, s))"

text \<open>
  Flask picks the handler registered for the code of an HTTP exception when there is one,
  and the handler registered for \<^verbatim>\<open>Exception\<close> otherwise.
\<close>

definition handle_user_exception_20250706 ::
  "py_exception \<Rightarrow> request \<Rightarrow> state_20250706 \<Rightarrow> response \<times> state_20250706" where
  "handle_user_exception_20250706 e rq s =
     (case e of
        HTTPException _ c _ _ \<Rightarrow>
          if c = 404 then page_not_found e rq s
          else if c = 403 then forbidden e rq s
          else handle_exception_20250706 e rq s
      | OtherException _ _ \<Rightarrow> handle_exception_20250706 e rq s)"

subsection \<open>The background sampler\<close>

text \<open>
  The readings of one tick. \<^verbatim>\<open>psutil\<close> may raise at each call; \<open>net_connections\<close> is the
  length of the list it returns. The exceptions are instances of \<^verbatim>\<open>Exception\<close>, the
  class the handler of \<^verbatim>\<open>collect_system_metrics\<close> catches.
\<close>

record svmem =
  mem_used :: int
  mem_available :: int
  mem_percent :: real

record sdiskusage =
  disk_used :: int
  disk_total :: int

record readings =
  cpu_percent :: "py_exception + real"
  virtual_memory :: "py_exception + svmem"
  disk_usage :: "py_exception + sdiskusage"
  time_now :: real
  randint :: int
  net_connections :: "py_exception + nat"

text \<open>
  \<^verbatim>\<open>
  def collect_system_metrics(self):
      try:
          cpu_percent = psutil.cpu_percent(interval=1)
          system_cpu_usage_percent.set(cpu_percent)
          memory = psutil.virtual_memory()
          system_memory_usage_bytes.set(memory.used)
          system_memory_available_bytes.set(memory.available)
          disk = psutil.disk_usage('/')
          disk_usage_percent = (disk.used / disk.total) * 100
          system_disk_usage_percent.set(disk_usage_percent)
          uptime = time.time() - self.start_time
          app_uptime_seconds.set(uptime)
          health_score = self.calculate_health_score(cpu_percent, memory.percent,
                                                     disk_usage_percent)
          app_health_score.set(health_score)
          database_connection_pool_size.set(random.randint(5, 25))
          active_connections.set(len(psutil.net_connections()))
          logger.debug(f"System metrics updated - CPU: ..., Memory: ..., Health: ...")
      except Exception as e:
          logger.error(f"Error collecting system metrics: {e}")
  \<close>
  \<open>collect_try\<close> is the body of the \<^verbatim>\<open>try\<close> block: it returns the exception raised, if
  any, and the state at that point, with the gauges written so far.
\<close>

definition collect_try :: "readings \<Rightarrow> app_state \<Rightarrow> py_exception option \<times> app_state" where
  "collect_try rd s =
     (case cpu_percent rd of
        Inl e \<Rightarrow> (Some e, s)
      | Inr cpu \<Rightarrow>
     (let s = s\<lparr>system_cpu_usage_percent := cpu\<rparr>
      in case virtual_memory rd of
        Inl e \<Rightarrow> (Some e, s)
      | Inr memory \<Rightarrow>
     (let s = s\<lparr>system_memory_usage_bytes := real_of_int (mem_used memory)\<rparr>;
          s = s\<lparr>system_memory_available_bytes := real_of_int (mem_available memory)\<rparr>
      in case disk_usage rd of
        Inl e \<Rightarrow> (Some e, s)
      | Inr disk \<Rightarrow>
     (case py_truediv (disk_used disk) (disk_total disk) of
        Inl e \<Rightarrow> (Some e, s)
      | Inr q \<Rightarrow>
     (let disk_usage_percent = q * 100;
          s = s\<lparr>system_disk_usage_percent := disk_usage_percent\<rparr>;
          uptime = time_now rd - start_time (system_monitor s);
          s = s\<lparr>app_uptime_seconds := uptime\<rparr>
      in case calculate_health_score (system_monitor s) cpu (mem_percent memory)
                disk_usage_percent of
        Inl e \<Rightarrow> (Some e, s)
      | Inr health_score \<Rightarrow>
     (let s = s\<lparr>app_health_score := real_of_int health_score\<rparr>;
          s = s\<lparr>database_connection_pool_size := real_of_int (randint rd)\<rparr>
      in case net_connections rd of
        Inl e \<Rightarrow> (Some e, s)
      | Inr n \<Rightarrow>
     (let s = s\<lparr>active_connections := real n\<rparr>;
          s = s\<lparr>logger := logger s @
                  [LogMetricsUpdated cpu (mem_percent memory) health_score]\<rparr>
      in (None, s))))))))"

definition collect_system_metrics :: "readings \<Rightarrow> app_state \<Rightarrow> app_state" where
  "collect_system_metrics rd s =
     (case collect_try rd s of
        (None, s') \<Rightarrow> s'
      | (Some e, s') \<Rightarrow>
          s'\<lparr>logger := logger s' @
                [LogError (''Error collecting system metrics: '' @ exc_str e)]\<rparr>)"

text \<open>\<^verbatim>\<open>time.sleep\<close> raises \<^verbatim>\<open>ValueError\<close> on a negative length.\<close>

definition time_sleep :: "real \<Rightarrow> py_exception + unit" where
  "time_sleep secs =
     (if secs < 0 then Inl (OtherException ''ValueError'' ''sleep length must be non-negative'')
      else Inr ())"

text \<open>
  \<^verbatim>\<open>
  def monitor_loop():
      while True:
          system_monitor.collect_system_metrics()
          time.sleep(Config.MONITORING_INTERVAL)
  \<close>
  The loop has no exit: it ends only when an exception leaves its body. The list holds
  the readings of the ticks observed so far, one entry per tick, and \<open>slept\<close> the sleeps
  done so far. \<open>Inr\<close> is the state of the still running loop after these ticks;
  \<open>Inl e\<close> means that \<open>e\<close> ended the thread.
\<close>

fun monitor_loop ::
  "int \<Rightarrow> readings list \<Rightarrow> app_state \<Rightarrow> int list \<Rightarrow> py_exception + (app_state \<times> int list)" where
  "monitor_loop MONITORING_INTERVAL [] s slept = Inr (s, slept)"
| "monitor_loop MONITORING_INTERVAL (rd # rds) s slept =
     (let s = collect_system_metrics rd s
      in case time_sleep (real_of_int MONITORING_INTERVAL) of
           Inl e \<Rightarrow> Inl e
         | Inr _ \<Rightarrow> monitor_loop MONITORING_INTERVAL rds s (slept @ [MONITORING_INTERVAL]))"

subsection \<open>The traffic generator\<close>

text \<open>
  \<^verbatim>\<open>
  self.endpoints = ["/", "/api/health", "/api/users", "/api/products", "/api/orders",
                    "/about"]
  self.error_endpoints = ["/error", "/slow"]
  \<close>
\<close>

definition endpoints :: "string list" where
  "endpoints = [''/'', ''/api/health'', ''/api/users'', ''/api/products'', ''/api/orders'',
                ''/about'']"

definition error_endpoints :: "string list" where
  "error_endpoints = [''/error'', ''/slow'']"

text \<open>
  What \<^verbatim>\<open>requests.get\<close> does: a response with its status code and elapsed seconds, or
  an exception.
\<close>

datatype get_result = Response int real | GetRaises py_exception

record result =
  r_endpoint :: string
  r_status_code :: int
  r_response_time :: real
  r_success :: bool
  r_error :: "string option"

text \<open>
  \<^verbatim>\<open>
  def make_request(self, endpoint):
      try:
          url = f"{self.base_url}{endpoint}"
          response = requests.get(url, timeout=10)
          return {'endpoint': endpoint, 'status_code': response.status_code,
                  'response_time': response.elapsed.total_seconds(), 'success': True}
      except Exception as e:
          return {'endpoint': endpoint, 'status_code': 0, 'response_time': 0,
                  'success': False, 'error': str(e)}
  \<close>
\<close>

definition make_request :: "get_result \<Rightarrow> string \<Rightarrow> result" where
  "make_request got endpoint =
     (case got of
        Response sc elapsed \<Rightarrow>
          \<lparr>r_endpoint = endpoint, r_status_code = sc, r_response_time = elapsed,
           r_success = True, r_error = None\<rparr>
      | GetRaises e \<Rightarrow>
          \<lparr>r_endpoint = endpoint, r_status_code = 0, r_response_time = 0,
           r_success = False, r_error = Some (exc_str e)\<rparr>)"

text \<open>
  One turn of the worker's loop reads the clock for the loop test, draws
  \<^verbatim>\<open>random.random()\<close> and the index of \<^verbatim>\<open>random.choice\<close>, and gets the answer of
  the server. \<^verbatim>\<open>random.choice\<close> returns the element at an index within the list.
\<close>

record turn =
  clock :: real
  random_random :: real
  choice_index :: nat
  got :: get_result

definition random_choice :: "nat \<Rightarrow> 'a list \<Rightarrow> 'a" where
  "random_choice k xs = xs ! (k mod length xs)"

text \<open>
  What a worker does, in order: the URL it requests, the line it prints (a success with
  status code and response time, or a failure with the error text), the sleep.
\<close>

datatype report = PrintOk string int real | PrintError string string

datatype event = Request string | Print report | Sleep real

text \<open>
  \<^verbatim>\<open>
  def worker(self, duration, requests_per_second):
      end_time = time.time() + duration
      interval = 1.0 / requests_per_second
      while time.time() < end_time:
          # 90% normal requests, 10% error requests
          if random.random() < 0.9:
              endpoint = random.choice(self.endpoints)
          else:
              endpoint = random.choice(self.error_endpoints)
          result = self.make_request(endpoint)
          if result['success']:
              print(f"... {endpoint} - {result['status_code']} - {result['response_time']:.3f}s")
          else:
              print(f"... {endpoint} - Error: {result.get('error', 'Unknown')}")
          time.sleep(interval)
  \<close>
  The loop runs on the turns given; it returns the events done and the exception that
  ended it, if any. A list of turns that ends while the clock is still before
  \<open>end_time\<close> gives the events of a worker that is still running.
\<close>

fun worker_loop ::
  "string \<Rightarrow> real \<Rightarrow> real \<Rightarrow> turn list \<Rightarrow> event list \<times> py_exception option" where
  "worker_loop base_url end_time interval [] = ([], None)"
| "worker_loop base_url end_time interval (t # ts) =
     (if clock t < end_time then
        (let endpoint = (if random_random t < 9 / 10
                         then random_choice (choice_index t) endpoints
                         else random_choice (choice_index t) error_endpoints);
             result = make_request (got t) endpoint;
             line = (if r_success result
                     then PrintOk endpoint (r_status_code result) (r_response_time result)
                     else PrintError endpoint
                            (case r_error result of Some m \<Rightarrow> m | None \<Rightarrow> ''Unknown''));
             evs = [Request (base_url @ endpoint), Print line]
         in case time_sleep interval of
              Inl e \<Rightarrow> (evs, Some e)
            | Inr _ \<Rightarrow>
                (case worker_loop base_url end_time interval ts of
                   (rest, x) \<Rightarrow> (evs @ [Sleep interval] @ rest, x)))
      else ([], None))"

definition py_float_truediv :: "real \<Rightarrow> real \<Rightarrow> py_exception + real" where
  "py_float_truediv a b = (if b = 0 then Inl ZeroDivisionError else Inr (a / b))"

definition worker ::
  "string \<Rightarrow> real \<Rightarrow> turn list \<Rightarrow> int \<Rightarrow> real \<Rightarrow> event list \<times> py_exception option" where
  "worker base_url now ts duration requests_per_second =
     (let end_time = now + real_of_int duration
      in case py_float_truediv 1 requests_per_second of
           Inl e \<Rightarrow> ([], Some e)
         | Inr interval \<Rightarrow> worker_loop base_url end_time interval ts)"

text \<open>
  \<^verbatim>\<open>
  def run_load_test(self, duration=60, requests_per_second=10, num_threads=4):
      with ThreadPoolExecutor(max_workers=num_threads) as executor:
          futures = []
          for _ in range(num_threads):
              future = executor.submit(self.worker, duration,
                                       requests_per_second / num_threads)
              futures.append(future)
          for future in futures:
              future.result()
  \<close>
  \<^verbatim>\<open>ThreadPoolExecutor\<close> raises \<^verbatim>\<open>ValueError\<close> unless \<^verbatim>\<open>max_workers\<close> is positive.
  The workers do not share data: worker \<open>i\<close> runs on its own clock reading and turns,
  \<open>env i\<close>. The result lists, per worker, the rate it was given and its events;
  \<^verbatim>\<open>future.result()\<close> raises again the exception of the first worker that failed.
\<close>

fun first_exception :: "('a \<times> event list \<times> py_exception option) list \<Rightarrow> py_exception option" where
  "first_exception [] = None"
| "first_exception ((_, _, Some e) # _) = Some e"
| "first_exception ((_, _, None) # rest) = first_exception rest"

definition run_load_test ::
  "string \<Rightarrow> (nat \<Rightarrow> real \<times> turn list) \<Rightarrow> int \<Rightarrow> int \<Rightarrow> int
     \<Rightarrow> py_exception + (real \<times> event list) list" where
  "run_load_test base_url env duration requests_per_second num_threads =
     (if num_threads \<le> 0
      then Inl (OtherException ''ValueError'' ''max_workers must be greater than 0'')
      else
        (let futures =
               map (\<lambda>i. case py_truediv requests_per_second num_threads of
                           Inl e \<Rightarrow> (0, [], Some e)
                         | Inr rate \<Rightarrow>
                             (rate, worker base_url (fst (env i)) (snd (env i)) duration rate))
                   [0..<nat num_threads]
         in case first_exception futures of
              Some e \<Rightarrow> Inl e
            | None \<Rightarrow> Inr (map (\<lambda>(rate, evs, _). (rate, evs)) futures)))"

text \<open>
  What the report of a request has to be: a success with the status code and the elapsed
  time of the response, or a failure with the text of the exception.
\<close>

definition report_of :: "string \<Rightarrow> get_result \<Rightarrow> report" where
  "report_of p g =
     (case g of
        Response sc elapsed \<Rightarrow> PrintOk p sc elapsed
      | GetRaises e \<Rightarrow> PrintError p (exc_str e))"

definition report_endpoint :: "report \<Rightarrow> string" where
  "report_endpoint r = (case r of PrintOk p _ _ \<Rightarrow> p | PrintError p _ \<Rightarrow> p)"

text \<open>
  A trace is paced on a list of turns when it has, for each turn in order and for nothing
  else, one request to the base URL followed by one of the given endpoints, then the
  report of that endpoint and of the answer of that turn, then one sleep of the given
  interval.
\<close>

fun paced :: "string \<Rightarrow> string list \<Rightarrow> real \<Rightarrow> turn list \<Rightarrow> event list \<Rightarrow> bool" where
  "paced base_url ps interval [] evs = (evs = [])"
| "paced base_url ps interval (t # ts) (Request u # Print r # Sleep d # rest) =
     (report_endpoint r \<in> set ps \<and> u = base_url @ report_endpoint r
      \<and> r = report_of (report_endpoint r) (got t) \<and> d = interval
      \<and> paced base_url ps interval ts rest)"
| "paced base_url ps interval (t # ts) evs = False"

subsection \<open>Invariant of the error tracker\<close>

text \<open>
  Both counters are non-negative and the gauge holds the rate of the current counters,
  or its initial 0 while no request has been counted.
\<close>

definition tracker_inv :: "app_state \<Rightarrow> bool" where
  "tracker_inv s =
     (0 \<le> error_count (system_monitor s) \<and> 0 \<le> total_requests (system_monitor s) \<and>
      error_rate s =
        (if total_requests (system_monitor s) > 0
         then real_of_int (error_count (system_monitor s)) /
              real_of_int (total_requests (system_monitor s)) * 100
         else 0))"

subsection \<open>Sample inputs\<close>

text \<open>
  A request environment and a request for the concrete instances below: the view of the
  requested path does \<open>rv\<close>, and werkzeug's texts are those of \<^verbatim>\<open>NotFound\<close>.
\<close>

definition demo_world :: "view_result \<Rightarrow> world" where
  "demo_world rv =
     \<lparr>time_before = 10, uuid_request = ''req-1'', view_call = rv,
      generate_latest_result = Inr ''# HELP'', time_error = 11, uuid_error = ''err-1'',
      datetime_now = ''2025-06-18T11:49:51'', time_after = 12, response_len = 64,
      werkzeug_texts = (\<lambda>_. (''NotFound'', ''The requested URL was not found on the server.'',
                               ''404 Not Found: The requested URL was not found on the server.''))\<rparr>"

definition demo_request :: "string \<Rightarrow> request" where
  "demo_request p = \<lparr>req_method = ''GET'', path = p, data_len = 0, attrs = None\<rparr>"

definition demo_readings :: "py_exception + sdiskusage \<Rightarrow> readings" where
  "demo_readings du =
     \<lparr>cpu_percent = Inr 42,
      virtual_memory = Inr \<lparr>mem_used = 4096, mem_available = 8192, mem_percent = 33\<rparr>,
      disk_usage = du, time_now = 100, randint = 7, net_connections = Inr 3\<rparr>"

section \<open>Properties\<close>

subsection \<open>The health score\<close>

lemma calculate_health_score_eq:
  "calculate_health_score self cpu_pct mem_pct disk_pct =
     Inr (spec_score cpu_pct mem_pct disk_pct
            (if total_requests self > 0
             then real_of_int (error_count self) / real_of_int (total_requests self) * 100
             else 0))"
  by (simp add: calculate_health_score_def spec_score_def py_truediv_def Let_def)

lemma spec_score_range: "0 \<le> spec_score c m d r \<and> spec_score c m d r \<le> 100"
  by (simp add: spec_score_def)

text \<open>
  Claim C1, as stated, fails on the code. The four penalties add up to 95, so the score
  at the worst readings with an error rate of 100 percent is 5: the value 0 is never
  reached. And the scorer is not a function of its arguments alone: it takes three
  readings and reads the two stored counters, so the same readings give different
  scores under different counters.
\<close>

theorem health_score_claim_counterexample:
  "calculate_health_score \<lparr>start_time = 0, error_count = 1, total_requests = 1\<rparr> 100 100 100
     \<noteq> Inr 0
   \<and> spec_score 100 100 100 100 \<noteq> 0
   \<and> calculate_health_score \<lparr>start_time = 0, error_count = 12, total_requests = 100\<rparr> 85 95 96
       \<noteq> calculate_health_score \<lparr>start_time = 0, error_count = 0, total_requests = 100\<rparr> 85 95 96"
  by (simp add: calculate_health_score_eq spec_score_def)

text \<open>
  Claim C1, amended. The health scorer has no side effects and always returns; it is a
  deterministic function of the three readings \<open>cpu_pct\<close>, \<open>mem_pct\<close>, \<open>disk_pct\<close> and of
  the error rate it derives from the stored counters, \<open>100 * error_count / total_requests\<close>
  when \<open>total_requests > 0\<close> and no error-rate penalty otherwise. It computes the rule
  of the specification: start at 100; subtract 30 if \<open>cpu_pct > 80\<close> else 15 if
  \<open>cpu_pct > 60\<close>; 25 if \<open>mem_pct > 90\<close> else 10 if \<open>mem_pct > 70\<close>; 20 if
  \<open>disk_pct > 95\<close> else 10 if \<open>disk_pct > 85\<close>; 20 if the rate is above 10 else 10 if it
  is above 5; clamp at 0. In particular the score is 100 at \<open>(50, 50, 50)\<close> and 70 at
  \<open>(85, 50, 50)\<close> with no requests counted, 5 at \<open>(85, 95, 96)\<close> with a rate of 12
  percent, and 5 at \<open>(100, 100, 100)\<close> with a rate of 100 percent.
\<close>

theorem health_score_rule:
  "calculate_health_score self cpu_pct mem_pct disk_pct =
     Inr (spec_score cpu_pct mem_pct disk_pct
            (if total_requests self > 0
             then real_of_int (error_count self) / real_of_int (total_requests self) * 100
             else 0))
   \<and> calculate_health_score \<lparr>start_time = 0, error_count = 0, total_requests = 0\<rparr> 50 50 50
       = Inr 100
   \<and> calculate_health_score \<lparr>start_time = 0, error_count = 0, total_requests = 0\<rparr> 85 50 50
       = Inr 70
   \<and> calculate_health_score \<lparr>start_time = 0, error_count = 12, total_requests = 100\<rparr> 85 95 96
       = Inr 5
   \<and> calculate_health_score \<lparr>start_time = 0, error_count = 1, total_requests = 1\<rparr> 100 100 100
       = Inr 5"
proof -
  have "calculate_health_score \<lparr>start_time = 0, error_count = 0, total_requests = 0\<rparr> 50 50 50
          = Inr 100"
    by (simp add: calculate_health_score_eq spec_score_def)
  moreover
  have "calculate_health_score \<lparr>start_time = 0, error_count = 0, total_requests = 0\<rparr> 85 50 50
          = Inr 70"
    by (simp add: calculate_health_score_eq spec_score_def)
  moreover
  have "calculate_health_score \<lparr>start_time = 0, error_count = 12, total_requests = 100\<rparr> 85 95 96
          = Inr 5"
    by (simp add: calculate_health_score_eq spec_score_def)
  moreover
  have "calculate_health_score \<lparr>start_time = 0, error_count = 1, total_requests = 1\<rparr> 100 100 100
          = Inr 5"
    by (simp add: calculate_health_score_eq spec_score_def)
  ultimately show ?thesis
    using calculate_health_score_eq by blast
qed

text \<open>The rule at readings in the middle tiers, with 3 errors in 40 requests.\<close>

theorem health_score_rule_witness:
  "calculate_health_score \<lparr>start_time = 0, error_count = 3, total_requests = 40\<rparr> 70 50 90
     = Inr (spec_score 70 50 90 (15 / 2))
   \<and> spec_score 70 50 90 (15 / 2) = 65"
  using health_score_rule [of "\<lparr>start_time = 0, error_count = 3, total_requests = 40\<rparr>" 70 50 90]
  by (simp add: spec_score_def)

text \<open>
  Claim C6. For all real readings and all counters the health score is returned and lies
  in the closed interval from 0 to 100, and so does the rule of the specification for
  every real error rate: the clamp gives the lower bound, and since each dimension only
  subtracts, 100 is the largest value.
\<close>

theorem health_score_bounds:
  "(\<exists>v. calculate_health_score self cpu_pct mem_pct disk_pct = Inr v \<and> 0 \<le> v \<and> v \<le> 100)
   \<and> 0 \<le> spec_score cpu_pct mem_pct disk_pct error_rate_pct
   \<and> spec_score cpu_pct mem_pct disk_pct error_rate_pct \<le> 100"
  by (simp add: calculate_health_score_eq spec_score_range)

subsection \<open>The error tracker\<close>

lemma increment_request_returns:
  "increment_request s =
     Inr (if total_requests (system_monitor s) + 1 > 0
          then s\<lparr>system_monitor :=
                   (system_monitor s)\<lparr>total_requests := total_requests (system_monitor s) + 1\<rparr>,
                 error_rate := real_of_int (error_count (system_monitor s)) /
                               real_of_int (total_requests (system_monitor s) + 1) * 100\<rparr>
          else s\<lparr>system_monitor :=
                   (system_monitor s)\<lparr>total_requests := total_requests (system_monitor s) + 1\<rparr>\<rparr>)"
  by (simp add: increment_request_def py_truediv_def Let_def)

lemma increment_error_returns:
  "increment_error now s =
     Inr (if total_requests (system_monitor s) > 0
          then s\<lparr>system_monitor :=
                   (system_monitor s)\<lparr>error_count := error_count (system_monitor s) + 1\<rparr>,
                 last_error_timestamp := now,
                 error_rate := real_of_int (error_count (system_monitor s) + 1) /
                               real_of_int (total_requests (system_monitor s)) * 100\<rparr>
          else s\<lparr>system_monitor :=
                   (system_monitor s)\<lparr>error_count := error_count (system_monitor s) + 1\<rparr>,
                 last_error_timestamp := now\<rparr>)"
  by (simp add: increment_error_def py_truediv_def Let_def)

lemma tracker_inv_init: "tracker_inv (init_state now)"
  by (simp add: tracker_inv_def init_state_def SystemMonitor_init_def)

lemma tracker_inv_increment_error:
  "tracker_inv s \<Longrightarrow> \<exists>s'. increment_error now s = Inr s' \<and> tracker_inv s'"
  by (simp add: tracker_inv_def increment_error_returns)

lemma tracker_inv_increment_request:
  "tracker_inv s \<Longrightarrow> \<exists>s'. increment_request s = Inr s' \<and> tracker_inv s'"
  by (simp add: tracker_inv_def increment_request_returns)

lemma tracker_inv_run:
  "tracker_inv s \<Longrightarrow> \<exists>s'. run_tracker ops s = Inr s' \<and> tracker_inv s'"
proof (induction ops arbitrary: s)
  case Nil
  then show ?case by simp
next
  case (Cons op ops)
  show ?case
  proof (cases op)
    case (RecordError now)
    from tracker_inv_increment_error [OF Cons.prems, of now]
    obtain s1 where s1: "increment_error now s = Inr s1" "tracker_inv s1" by blast
    from Cons.IH [OF s1(2)] show ?thesis using s1(1) RecordError by simp
  next
    case RecordRequest
    from tracker_inv_increment_request [OF Cons.prems]
    obtain s1 where s1: "increment_request s = Inr s1" "tracker_inv s1" by blast
    from Cons.IH [OF s1(2)] show ?thesis using s1(1) RecordRequest by simp
  qed
qed

lemma tracker_inv_rate:
  assumes "tracker_inv s"
    and "error_count (system_monitor s) \<le> total_requests (system_monitor s)"
  shows "error_rate s = 100 * real_of_int (error_count (system_monitor s)) /
                        real_of_int (max (total_requests (system_monitor s)) 1)"
proof (cases "total_requests (system_monitor s) > 0")
  case True
  then have "max (total_requests (system_monitor s)) 1 = total_requests (system_monitor s)"
    by simp
  with assms(1) True show ?thesis by (simp add: tracker_inv_def)
next
  case False
  with assms have "total_requests (system_monitor s) = 0" "error_count (system_monitor s) = 0"
    by (simp_all add: tracker_inv_def)
  with assms(1) show ?thesis by (simp add: tracker_inv_def)
qed

text \<open>
  Claim C2. After any sequence of calls of \<open>increment_request\<close> and \<open>increment_error\<close>
  from the state of a fresh process, no call has raised (no division by zero), and
  whenever the counters satisfy \<open>0 \<le> errors \<le> requests\<close> the error-rate gauge equals
  \<open>100 * errors / max(requests, 1)\<close>: it is \<open>100 * errors / requests\<close> when
  \<open>requests > 0\<close> and 0 when \<open>requests = 0\<close>.
\<close>

theorem error_rate_gauge:
  "\<exists>s. run_tracker ops (init_state now) = Inr s \<and>
       (error_count (system_monitor s) \<le> total_requests (system_monitor s) \<longrightarrow>
          error_rate s = 100 * real_of_int (error_count (system_monitor s)) /
                         real_of_int (max (total_requests (system_monitor s)) 1)
          \<and> (total_requests (system_monitor s) > 0 \<longrightarrow>
               error_rate s = 100 * real_of_int (error_count (system_monitor s)) /
                              real_of_int (total_requests (system_monitor s)))
          \<and> (total_requests (system_monitor s) = 0 \<longrightarrow> error_rate s = 0))"
proof -
  from tracker_inv_run [OF tracker_inv_init, of ops now]
  obtain s where s: "run_tracker ops (init_state now) = Inr s" "tracker_inv s" by blast
  have "error_rate s = 100 * real_of_int (error_count (system_monitor s)) /
                       real_of_int (max (total_requests (system_monitor s)) 1)"
    if "error_count (system_monitor s) \<le> total_requests (system_monitor s)"
    using tracker_inv_rate [OF s(2) that] .
  moreover have "total_requests (system_monitor s) > 0 \<longrightarrow>
      error_rate s = 100 * real_of_int (error_count (system_monitor s)) /
                     real_of_int (total_requests (system_monitor s))"
    using s(2) by (simp add: tracker_inv_def)
  moreover have "total_requests (system_monitor s) = 0 \<longrightarrow> error_rate s = 0"
    using s(2) by (simp add: tracker_inv_def)
  ultimately show ?thesis using s(1) by blast
qed

text \<open>Three requests and one error: the gauge holds one third of 100.\<close>

theorem error_rate_gauge_witness:
  "\<exists>s. run_tracker [RecordRequest, RecordRequest, RecordError 5, RecordRequest] (init_state 0) = Inr s
     \<and> error_count (system_monitor s) = 1 \<and> total_requests (system_monitor s) = 3
     \<and> error_count (system_monitor s) \<le> total_requests (system_monitor s)
     \<and> error_rate s = 100 * 1 / 3"
proof -
  from error_rate_gauge [of "[RecordRequest, RecordRequest, RecordError 5, RecordRequest]" 0]
  obtain s where s: "run_tracker [RecordRequest, RecordRequest, RecordError 5, RecordRequest] (init_state 0) = Inr s"
    and r: "error_count (system_monitor s) \<le> total_requests (system_monitor s) \<longrightarrow>
          error_rate s = 100 * real_of_int (error_count (system_monitor s)) /
                         real_of_int (max (total_requests (system_monitor s)) 1)"
    by blast
  from s have c: "error_count (system_monitor s) = 1 \<and> total_requests (system_monitor s) = 3"
    by (auto simp: increment_request_returns increment_error_returns init_state_def SystemMonitor_init_def)
  with r have "error_rate s = 100 * 1 / 3" by simp
  with s c show ?thesis by simp
qed

text \<open>
  The health-check route computes the same rate with \<open>max(requests, 1)\<close> as the divisor,
  never raises, and rounds the value to two decimals for its response.
\<close>

lemma health_check_error_rate_percent_eq:
  "health_check_error_rate_percent round2 self =
     Inr (round2 (real_of_int (error_count self) /
                  real_of_int (max (total_requests self) 1) * 100))"
  by (simp add: health_check_error_rate_percent_def py_truediv_def)

text \<open>
  Every pair of counts is reached by some run: first the requests, then the errors.
\<close>

lemma run_tracker_append:
  "run_tracker (xs @ ys) s =
     (case run_tracker xs s of Inl e \<Rightarrow> Inl e | Inr s' \<Rightarrow> run_tracker ys s')"
proof (induction xs arbitrary: s)
  case Nil
  then show ?case by simp
next
  case (Cons op xs)
  then show ?case by (cases op) (simp_all split: sum.splits)
qed

lemma run_tracker_requests:
  "\<exists>s'. run_tracker (replicate n RecordRequest) s = Inr s'
      \<and> total_requests (system_monitor s') = total_requests (system_monitor s) + int n
      \<and> error_count (system_monitor s') = error_count (system_monitor s)"
proof (induction n arbitrary: s)
  case 0
  then show ?case by simp
next
  case (Suc n)
  obtain s1 where s1: "increment_request s = Inr s1"
    "total_requests (system_monitor s1) = total_requests (system_monitor s) + 1"
    "error_count (system_monitor s1) = error_count (system_monitor s)"
    by (simp add: increment_request_returns)
  from Suc [of s1] s1 show ?case by auto
qed

lemma run_tracker_errors:
  "\<exists>s'. run_tracker (replicate n (RecordError now)) s = Inr s'
      \<and> total_requests (system_monitor s') = total_requests (system_monitor s)
      \<and> error_count (system_monitor s') = error_count (system_monitor s) + int n"
proof (induction n arbitrary: s)
  case 0
  then show ?case by simp
next
  case (Suc n)
  obtain s1 where s1: "increment_error now s = Inr s1"
    "total_requests (system_monitor s1) = total_requests (system_monitor s)"
    "error_count (system_monitor s1) = error_count (system_monitor s) + 1"
    by (simp add: increment_error_returns)
  from Suc [of s1] s1 show ?case by auto
qed

lemma tracker_counts_reachable:
  "\<exists>s. run_tracker (replicate requests RecordRequest @ replicate errors (RecordError t))
          (init_state now) = Inr s
      \<and> total_requests (system_monitor s) = int requests
      \<and> error_count (system_monitor s) = int errors"
proof -
  from run_tracker_requests [of requests "init_state now"]
  obtain s1 where s1: "run_tracker (replicate requests RecordRequest) (init_state now) = Inr s1"
    "total_requests (system_monitor s1) = int requests" "error_count (system_monitor s1) = 0"
    by (auto simp: init_state_def SystemMonitor_init_def)
  from run_tracker_errors [of errors t s1]
  obtain s2 where s2: "run_tracker (replicate errors (RecordError t)) s1 = Inr s2"
    "total_requests (system_monitor s2) = total_requests (system_monitor s1)"
    "error_count (system_monitor s2) = error_count (system_monitor s1) + int errors"
    by blast
  from s1 s2 show ?thesis by (simp add: run_tracker_append)
qed

subsection \<open>The request cycle\<close>

lemma dispatch_request_attrs: "dispatch_request w (rq\<lparr>attrs := a\<rparr>) = dispatch_request w rq"
  by (simp add: dispatch_request_def)

lemma unrecognized_path:
  assumes "fst (dispatch_request w rq) = Raises (OtherException n m)"
  shows "path rq \<notin> set [''/favicon.ico'', ''/health'', ''/metrics'']"
proof -
  have "path rq \<noteq> ''/metrics''"
    using assms
    by (auto simp: dispatch_request_def metrics_def abort_def
             split: sum.splits prod.splits if_splits)
  moreover have "path rq \<in> set url_map \<or> static_rule (path rq)"
    using assms
    by (auto simp: dispatch_request_def metrics_def abort_def
             split: sum.splits prod.splits if_splits)
  moreover have "''/favicon.ico'' \<notin> set url_map" "''/health'' \<notin> set url_map"
    "\<not> static_rule ''/favicon.ico''" "\<not> static_rule ''/health''"
    by (simp_all add: url_map_def static_rule_def)
  ultimately show ?thesis by auto
qed

lemma unrecognized_lines:
  assumes "fst (dispatch_request w rq) = Raises (OtherException n m)"
  shows "dispatch_request w rq = (Raises (OtherException n m), [])"
  using assms
  by (auto simp: dispatch_request_def metrics_def abort_def
           split: sum.splits prod.splits if_splits)

text \<open>
  Claim C4. A request whose view raises an exception that is not an HTTP exception is
  served to the end (the handler does not raise), and serving it adds exactly one to the
  total-request count and exactly one to the total-error count; afterwards the
  error-rate gauge equals \<open>100 * errors / requests\<close> of the two updated counts, and the
  response has status 500. Such a view always belongs to a counted path: the paths
  \<^verbatim>\<open>/favicon.ico\<close> and \<^verbatim>\<open>/health\<close> have no view, and the view of \<^verbatim>\<open>/metrics\<close> turns
  every exception into the HTTP exception of \<^verbatim>\<open>abort(500)\<close>. The requests are served
  one at a time; the request count of the state before is not negative.
\<close>

theorem unrecognized_error_counted_once:
  assumes r0: "0 \<le> total_requests (system_monitor s)"
    and raised: "fst (dispatch_request w rq) = Raises (OtherException n m)"
  shows "\<exists>response s'. full_dispatch_request w rq s = Inr (response, s')
     \<and> total_requests (system_monitor s') = total_requests (system_monitor s) + 1
     \<and> error_count (system_monitor s') = error_count (system_monitor s) + 1
     \<and> error_rate s' = 100 * real_of_int (error_count (system_monitor s')) /
                        real_of_int (total_requests (system_monitor s'))
     \<and> status_code response = 500"
proof -
  note p = unrecognized_path [OF raised]
  note d = unrecognized_lines [OF raised]
  show ?thesis
    using r0 p
    by (simp add: full_dispatch_request_def before_request_def increment_request_returns
        dispatch_request_attrs d handle_exception_def increment_error_returns
        after_request_def Let_def)
qed

text \<open>
  The first request of a process, to \<^verbatim>\<open>/api/simulate-error\<close>, whose view raises a plain
  exception: both counts are 1 and the gauge is 100 afterwards.
\<close>

theorem unrecognized_error_counted_once_witness:
  "0 \<le> total_requests (system_monitor (init_state 0))
   \<and> fst (dispatch_request (demo_world (Raises (OtherException ''Exception'' ''Simulated database connection error'')))
            (demo_request ''/api/simulate-error''))
       = Raises (OtherException ''Exception'' ''Simulated database connection error'')
   \<and> (\<exists>response s'.
         full_dispatch_request (demo_world (Raises (OtherException ''Exception'' ''Simulated database connection error'')))
           (demo_request ''/api/simulate-error'') (init_state 0) = Inr (response, s')
         \<and> total_requests (system_monitor s') = 1
         \<and> error_count (system_monitor s') = 1
         \<and> error_rate s' = 100
         \<and> status_code response = 500)"
proof -
  let ?e = "OtherException ''Exception'' ''Simulated database connection error''"
  have h1: "0 \<le> total_requests (system_monitor (init_state 0))"
    by (simp add: init_state_def SystemMonitor_init_def)
  have h2: "fst (dispatch_request (demo_world (Raises ?e)) (demo_request ''/api/simulate-error''))
              = Raises ?e"
    by (simp add: dispatch_request_def demo_world_def demo_request_def url_map_def
        rule_methods_def)
  from unrecognized_error_counted_once [OF h1 h2]
  obtain response s' where
    "full_dispatch_request (demo_world (Raises ?e)) (demo_request ''/api/simulate-error'') (init_state 0) = Inr (response, s')"
    "total_requests (system_monitor s') = total_requests (system_monitor (init_state 0)) + 1"
    "error_count (system_monitor s') = error_count (system_monitor (init_state 0)) + 1"
    "error_rate s' = 100 * real_of_int (error_count (system_monitor s')) /
                        real_of_int (total_requests (system_monitor s'))"
    "status_code response = 500"
    by blast
  then show ?thesis using h1 h2
    by (simp add: init_state_def SystemMonitor_init_def)
qed

text \<open>
  Claim C3 fails on the code. The first request of a process asks for
  \<^verbatim>\<open>/favicon.ico\<close>: the pre-hook skips the request count for this path, the router
  raises \<^verbatim>\<open>NotFound\<close>, and the error handler counts the error without looking at the
  path. The process is then in a state with one error and no request.
\<close>

theorem favicon_error_not_counted_as_request:
  "(case serve [(demo_world (Returns \<lparr>status_code = 200, body = Data ''''\<rparr>), demo_request ''/favicon.ico'')] (init_state 0) of
      Inl e \<Rightarrow> None
    | Inr s \<Rightarrow> Some (error_count (system_monitor s), total_requests (system_monitor s)))
   = Some (1, 0)"
  by (simp add: full_dispatch_request_def before_request_def dispatch_request_def
      demo_world_def demo_request_def url_map_def static_rule_def abort_def
      handle_exception_def increment_error_returns after_request_def
      init_state_def SystemMonitor_init_def Let_def)

text \<open>
  The handler of version 3.0.0 does what claim C5 says: every error response carries the
  error id and the timestamp, an HTTP exception keeps its code and description, and any
  other exception gives status 500 and the fixed text, whatever its message.
\<close>

lemma handle_exception_response:
  "\<exists>s'. handle_exception w e rq s =
     Inr (\<lparr>status_code = (case e of HTTPException _ c _ _ \<Rightarrow> c | OtherException _ _ \<Rightarrow> 500),
           body = Json [(''error'', (case e of HTTPException _ _ d _ \<Rightarrow> d
                                       | OtherException _ _ \<Rightarrow> ''Internal Server Error'')),
                        (''error_id'', uuid_error w),
                        (''timestamp'', datetime_now w)]\<rparr>, s')"
  by (cases e) (simp_all add: handle_exception_def increment_error_returns Let_def)

text \<open>
  Claim C5 fails on version 2.0.0. Its handler for \<^verbatim>\<open>Exception\<close> answers the exception
  of the \<^verbatim>\<open>/error\<close> view with status 500 and a body that holds \<^verbatim>\<open>str(e)\<close> under
  \<open>message\<close> and has neither an error id nor a timestamp.
\<close>

theorem handle_exception_20250706_returns_message:
  "fst (handle_user_exception_20250706
          (OtherException ''Exception'' ''This is a simulated error for testing'')
          (demo_request ''/error'')
          \<lparr>error_counter = (\<lambda>_. 0), active_requests = 1, logger_20250706 = []\<rparr>)
   = \<lparr>status_code = 500,
      body = Json [(''error'', ''Internal Server Error''),
                   (''message'', ''This is a simulated error for testing'')]\<rparr>"
  by (simp add: handle_user_exception_20250706_def handle_exception_20250706_def Let_def)

text \<open>
  Claim C8. For a request to \<^verbatim>\<open>/metrics\<close> the pre-hook only attaches the two attributes
  to the request and leaves the whole state as it is, so the total-request count is not
  incremented; the post-hook returns the response and leaves the whole state as it is,
  so the request counter, the latency histogram and the two size histograms are not
  updated; and a \<^verbatim>\<open>GET\<close> scrape that succeeds leaves the state of the process
  unchanged.
\<close>

theorem metrics_path_not_instrumented:
  assumes "path rq = ''/metrics''"
  shows "before_request w rq s = Inr (rq\<lparr>attrs := Some (time_before w, uuid_request w)\<rparr>, s)
     \<and> after_request w (rq\<lparr>attrs := a\<rparr>) response s = (response, s)
     \<and> (req_method rq = ''GET'' \<and> generate_latest_result w = Inr d \<longrightarrow>
          full_dispatch_request w rq s = Inr (\<lparr>status_code = 200, body = Data d\<rparr>, s))"
proof -
  have pre: "before_request w rq s
               = Inr (rq\<lparr>attrs := Some (time_before w, uuid_request w)\<rparr>, s)"
    using assms by (simp add: before_request_def Let_def)
  have post: "after_request w (rq\<lparr>attrs := a'\<rparr>) response' s' = (response', s')"
    for a' response' s'
    using assms by (simp add: after_request_def split: option.splits)
  have "full_dispatch_request w rq s = Inr (\<lparr>status_code = 200, body = Data d\<rparr>, s)"
    if "req_method rq = ''GET''" and "generate_latest_result w = Inr d"
  proof -
    have "dispatch_request w (rq\<lparr>attrs := Some (time_before w, uuid_request w)\<rparr>)
            = (Returns \<lparr>status_code = 200, body = Data d\<rparr>, [])"
      using assms that
      by (simp add: dispatch_request_def metrics_def url_map_def rule_methods_def)
    then show ?thesis
      by (simp add: full_dispatch_request_def pre post)
  qed
  with pre post show ?thesis by blast
qed

text \<open>
  A scrape of \<^verbatim>\<open>/metrics\<close> on a fresh process.
\<close>

theorem metrics_path_not_instrumented_witness:
  "path (demo_request ''/metrics'') = ''/metrics''
   \<and> before_request (demo_world (Raises ZeroDivisionError)) (demo_request ''/metrics'') (init_state 0)
       = Inr ((demo_request ''/metrics'')\<lparr>attrs := Some (10, ''req-1'')\<rparr>, init_state 0)
   \<and> after_request (demo_world (Raises ZeroDivisionError))
        ((demo_request ''/metrics'')\<lparr>attrs := Some (10, ''req-1'')\<rparr>)
        \<lparr>status_code = 200, body = Data ''# HELP''\<rparr> (init_state 0)
       = (\<lparr>status_code = 200, body = Data ''# HELP''\<rparr>, init_state 0)
   \<and> req_method (demo_request ''/metrics'') = ''GET''
   \<and> generate_latest_result (demo_world (Raises ZeroDivisionError)) = Inr ''# HELP''
   \<and> full_dispatch_request (demo_world (Raises ZeroDivisionError)) (demo_request ''/metrics'') (init_state 0)
       = Inr (\<lparr>status_code = 200, body = Data ''# HELP''\<rparr>, init_state 0)"
proof -
  have h: "path (demo_request ''/metrics'') = ''/metrics''"
    by (simp add: demo_request_def)
  have g: "generate_latest_result (demo_world (Raises ZeroDivisionError)) = Inr ''# HELP''"
    "time_before (demo_world (Raises ZeroDivisionError)) = 10"
    "uuid_request (demo_world (Raises ZeroDivisionError)) = ''req-1''"
    "req_method (demo_request ''/metrics'') = ''GET''"
    by (simp_all add: demo_world_def demo_request_def)
  from metrics_path_not_instrumented [OF h, of "demo_world (Raises ZeroDivisionError)" "init_state 0"
      "Some (10, ''req-1'')" "\<lparr>status_code = 200, body = Data ''# HELP''\<rparr>" "''# HELP''"]
  show ?thesis using h g by simp
qed

text \<open>
  A request to \<^verbatim>\<open>/metrics\<close> with a method the rule does not allow never reaches the
  view: the router raises the HTTP exception 405 and the error handler counts an error,
  while both hooks still leave the request metrics alone.
\<close>

lemma metrics_wrong_method:
  "path rq = ''/metrics'' \<Longrightarrow> req_method rq = ''POST'' \<Longrightarrow>
   dispatch_request w rq = (Raises (abort w 405), [])"
  by (simp add: dispatch_request_def url_map_def rule_methods_def)

subsection \<open>Which paths are counted\<close>


lemma before_request_returns:
  "\<exists>s'. before_request w rq s = Inr (rq\<lparr>attrs := Some (time_before w, uuid_request w)\<rparr>, s')
      \<and> total_requests (system_monitor s') =
          total_requests (system_monitor s) +
          (if path rq \<in> set [''/favicon.ico'', ''/health'', ''/metrics''] then 0 else 1)
      \<and> error_count (system_monitor s') = error_count (system_monitor s)"
  by (simp add: before_request_def increment_request_returns Let_def)

text \<open>
  Claim C10. Every request to \<^verbatim>\<open>/api/health\<close>, the path of the registered health route,
  increments the total-request count in the pre-hook and is recorded by the post-hook
  in the request counter, the latency histogram and the two size histograms; the
  pre-hook leaves the state unchanged exactly for the three paths \<^verbatim>\<open>/favicon.ico\<close>,
  \<^verbatim>\<open>/health\<close> and \<^verbatim>\<open>/metrics\<close>, and \<^verbatim>\<open>/health\<close> is not a registered route.
\<close>

theorem api_health_is_counted:
  assumes "path rq = ''/api/health''"
  shows "(\<exists>s'. before_request w rq s = Inr (rq\<lparr>attrs := Some (time_before w, uuid_request w)\<rparr>, s')
           \<and> total_requests (system_monitor s') = total_requests (system_monitor s) + 1)
     \<and> (\<exists>s'. after_request w (rq\<lparr>attrs := Some (t0, i)\<rparr>) response s = (response, s')
           \<and> http_requests_total s' (req_method rq, ''/api/health'', status_code response)
               = http_requests_total s (req_method rq, ''/api/health'', status_code response) + 1
           \<and> http_request_duration_seconds s' (req_method rq, ''/api/health'')
               = http_request_duration_seconds s (req_method rq, ''/api/health'') @ [time_after w - t0]
           \<and> http_request_size_bytes s' (req_method rq, ''/api/health'')
               = http_request_size_bytes s (req_method rq, ''/api/health'') @ [data_len rq]
           \<and> http_response_size_bytes s' (req_method rq, ''/api/health'')
               = http_response_size_bytes s (req_method rq, ''/api/health'') @ [response_len w])
     \<and> (\<forall>rq'. (\<exists>rq1. before_request w rq' s = Inr (rq1, s))
               = (path rq' \<in> {''/favicon.ico'', ''/health'', ''/metrics''}))
     \<and> ''/api/health'' \<in> set url_map \<and> ''/health'' \<notin> set url_map"
proof -
  have a: "\<exists>s'. before_request w rq s = Inr (rq\<lparr>attrs := Some (time_before w, uuid_request w)\<rparr>, s')
           \<and> total_requests (system_monitor s') = total_requests (system_monitor s) + 1"
    using before_request_returns [of w rq s] assms by auto
  have b: "\<exists>s'. after_request w (rq\<lparr>attrs := Some (t0, i)\<rparr>) response s = (response, s')
           \<and> http_requests_total s' (req_method rq, ''/api/health'', status_code response)
               = http_requests_total s (req_method rq, ''/api/health'', status_code response) + 1
           \<and> http_request_duration_seconds s' (req_method rq, ''/api/health'')
               = http_request_duration_seconds s (req_method rq, ''/api/health'') @ [time_after w - t0]
           \<and> http_request_size_bytes s' (req_method rq, ''/api/health'')
               = http_request_size_bytes s (req_method rq, ''/api/health'') @ [data_len rq]
           \<and> http_response_size_bytes s' (req_method rq, ''/api/health'')
               = http_response_size_bytes s (req_method rq, ''/api/health'') @ [response_len w]"
    using assms by (simp add: after_request_def Let_def)
  have c: "(\<exists>rq1. before_request w rq' s = Inr (rq1, s))
               = (path rq' \<in> {''/favicon.ico'', ''/health'', ''/metrics''})" for rq'
  proof
    assume "\<exists>rq1. before_request w rq' s = Inr (rq1, s)"
    then obtain rq1 where "before_request w rq' s = Inr (rq1, s)" ..
    with before_request_returns [of w rq' s]
    have "total_requests (system_monitor s) = total_requests (system_monitor s) +
          (if path rq' \<in> set [''/favicon.ico'', ''/health'', ''/metrics''] then 0 else 1)"
      by auto
    then show "path rq' \<in> {''/favicon.ico'', ''/health'', ''/metrics''}"
      by (simp split: if_splits)
  next
    assume "path rq' \<in> {''/favicon.ico'', ''/health'', ''/metrics''}"
    then show "\<exists>rq1. before_request w rq' s = Inr (rq1, s)"
      by (auto simp: before_request_def Let_def)
  qed
  have d: "''/api/health'' \<in> set url_map \<and> ''/health'' \<notin> set url_map"
    by (simp add: url_map_def)
  from a b c d show ?thesis by blast
qed

text \<open>
  A health check on a fresh process: one request counted, one observation of 2 seconds.
\<close>

theorem api_health_is_counted_witness:
  "path (demo_request ''/api/health'') = ''/api/health''
   \<and> (\<exists>rq1 s1 response s2.
        before_request (demo_world (Returns \<lparr>status_code = 200, body = Data ''ok''\<rparr>))
          (demo_request ''/api/health'') (init_state 0) = Inr (rq1, s1)
        \<and> total_requests (system_monitor s1) = 1
        \<and> after_request (demo_world (Returns \<lparr>status_code = 200, body = Data ''ok''\<rparr>)) rq1
            \<lparr>status_code = 200, body = Data ''ok''\<rparr> (init_state 0) = (response, s2)
        \<and> http_requests_total s2 (''GET'', ''/api/health'', 200) = 1
        \<and> http_request_duration_seconds s2 (''GET'', ''/api/health'') = [2])"
proof -
  let ?w = "demo_world (Returns \<lparr>status_code = 200, body = Data ''ok''\<rparr>)"
  let ?rq = "demo_request ''/api/health''"
  have h: "path ?rq = ''/api/health''" by (simp add: demo_request_def)
  have v: "time_before ?w = 10" "uuid_request ?w = ''req-1''" "time_after ?w = 12"
    "req_method ?rq = ''GET''"
    by (simp_all add: demo_world_def demo_request_def)
  have z: "total_requests (system_monitor (init_state 0)) = 0"
    "http_requests_total (init_state 0) k = 0"
    "http_request_duration_seconds (init_state 0) k' = []" for k k'
    by (simp_all add: init_state_def SystemMonitor_init_def)
  from api_health_is_counted [OF h, of ?w "init_state 0" 10 "''req-1''"
      "\<lparr>status_code = 200, body = Data ''ok''\<rparr>"]
  show ?thesis using h v z by (auto simp: )
qed


subsection \<open>The background sampler\<close>

lemma collect_cpu_fails:
  "cpu_percent rd = Inl e \<Longrightarrow>
   collect_system_metrics rd s =
     s\<lparr>logger := logger s @ [LogError (''Error collecting system metrics: '' @ exc_str e)]\<rparr>"
  by (simp add: collect_system_metrics_def collect_try_def)

lemma collect_memory_fails:
  "cpu_percent rd = Inr c \<Longrightarrow> virtual_memory rd = Inl e \<Longrightarrow>
   collect_system_metrics rd s =
     s\<lparr>system_cpu_usage_percent := c,
       logger := logger s @ [LogError (''Error collecting system metrics: '' @ exc_str e)]\<rparr>"
  by (simp add: collect_system_metrics_def collect_try_def Let_def)

lemma collect_disk_fails:
  "cpu_percent rd = Inr c \<Longrightarrow> virtual_memory rd = Inr m \<Longrightarrow>
   disk_usage rd = Inl e \<or> (\<exists>d. disk_usage rd = Inr d \<and> disk_total d = 0 \<and> e = ZeroDivisionError) \<Longrightarrow>
   collect_system_metrics rd s =
     s\<lparr>system_cpu_usage_percent := c,
       system_memory_usage_bytes := real_of_int (mem_used m),
       system_memory_available_bytes := real_of_int (mem_available m),
       logger := logger s @ [LogError (''Error collecting system metrics: '' @ exc_str e)]\<rparr>"
  by (auto simp: collect_system_metrics_def collect_try_def py_truediv_def Let_def)

lemma collect_net_connections_fails:
  "cpu_percent rd = Inr c \<Longrightarrow> virtual_memory rd = Inr m \<Longrightarrow> disk_usage rd = Inr d \<Longrightarrow>
   disk_total d \<noteq> 0 \<Longrightarrow> net_connections rd = Inl e \<Longrightarrow>
   calculate_health_score (system_monitor s) c (mem_percent m)
     (real_of_int (disk_used d) / real_of_int (disk_total d) * 100) = Inr h \<Longrightarrow>
   collect_system_metrics rd s =
     s\<lparr>system_cpu_usage_percent := c,
       system_memory_usage_bytes := real_of_int (mem_used m),
       system_memory_available_bytes := real_of_int (mem_available m),
       system_disk_usage_percent := real_of_int (disk_used d) / real_of_int (disk_total d) * 100,
       app_uptime_seconds := time_now rd - start_time (system_monitor s),
       app_health_score := real_of_int h,
       database_connection_pool_size := real_of_int (randint rd),
       logger := logger s @ [LogError (''Error collecting system metrics: '' @ exc_str e)]\<rparr>"
  by (simp add: collect_system_metrics_def collect_try_def py_truediv_def Let_def)

lemma collect_failure_logged:
  assumes "fst (collect_try rd s) = Some e"
  shows "logger (collect_system_metrics rd s) =
           logger s @ [LogError (''Error collecting system metrics: '' @ exc_str e)]
       \<and> active_connections (collect_system_metrics rd s) = active_connections s"
  using assms
  by (auto simp: collect_system_metrics_def collect_try_def py_truediv_def Let_def
      calculate_health_score_eq split: sum.splits if_splits)

lemma monitor_loop_runs:
  "0 \<le> iv \<Longrightarrow>
   \<exists>s'. monitor_loop iv rds s slept = Inr (s', slept @ replicate (length rds) iv)"
proof (induction rds arbitrary: s slept)
  case Nil
  then show ?case by simp
next
  case (Cons rd rds)
  from Cons.IH [OF Cons.prems, of "collect_system_metrics rd s" "slept @ [iv]"]
  show ?case using Cons.prems
    by (simp add: time_sleep_def replicate_app_Cons_same)
qed

text \<open>
  Claim C7, amended. With a non-negative interval the sampling loop is never ended by a
  sampling failure: after any number of ticks, failing or not, it is still running and
  has slept the configured interval once per tick, and after each tick it goes on with
  the next one. In a tick in which collecting the metrics raises, the exception is
  caught and logged (one error record, nothing else), and the gauge writes that follow
  the failing statement are skipped while the gauges written before it keep their new
  values: none is written when the CPU reading fails, only the CPU gauge when the memory
  reading fails, only the CPU and memory gauges when the disk reading fails or the disk
  total is 0, and all but the connection gauge when the connection reading fails. The
  connection gauge is never written in a failing tick.
\<close>

theorem sampling_failure_is_contained:
  assumes "0 \<le> MONITORING_INTERVAL"
  shows "(\<exists>s'. monitor_loop MONITORING_INTERVAL rds s slept
                 = Inr (s', slept @ replicate (length rds) MONITORING_INTERVAL))
     \<and> monitor_loop MONITORING_INTERVAL (rd # rds) s slept
         = monitor_loop MONITORING_INTERVAL rds (collect_system_metrics rd s)
             (slept @ [MONITORING_INTERVAL])
     \<and> (fst (collect_try rd s) = Some e \<longrightarrow>
          logger (collect_system_metrics rd s) =
            logger s @ [LogError (''Error collecting system metrics: '' @ exc_str e)]
          \<and> active_connections (collect_system_metrics rd s) = active_connections s)
     \<and> (cpu_percent rd = Inl e \<longrightarrow>
          collect_system_metrics rd s =
            s\<lparr>logger := logger s @ [LogError (''Error collecting system metrics: '' @ exc_str e)]\<rparr>)
     \<and> (cpu_percent rd = Inr c \<and> virtual_memory rd = Inl e \<longrightarrow>
          collect_system_metrics rd s =
            s\<lparr>system_cpu_usage_percent := c,
              logger := logger s @ [LogError (''Error collecting system metrics: '' @ exc_str e)]\<rparr>)
     \<and> (cpu_percent rd = Inr c \<and> virtual_memory rd = Inr m
          \<and> (disk_usage rd = Inl e
               \<or> (\<exists>d. disk_usage rd = Inr d \<and> disk_total d = 0 \<and> e = ZeroDivisionError)) \<longrightarrow>
          collect_system_metrics rd s =
            s\<lparr>system_cpu_usage_percent := c,
              system_memory_usage_bytes := real_of_int (mem_used m),
              system_memory_available_bytes := real_of_int (mem_available m),
              logger := logger s @ [LogError (''Error collecting system metrics: '' @ exc_str e)]\<rparr>)
     \<and> (cpu_percent rd = Inr c \<and> virtual_memory rd = Inr m \<and> disk_usage rd = Inr du
          \<and> disk_total du \<noteq> 0 \<and> net_connections rd = Inl e
          \<and> calculate_health_score (system_monitor s) c (mem_percent m)
                (real_of_int (disk_used du) / real_of_int (disk_total du) * 100) = Inr h \<longrightarrow>
          collect_system_metrics rd s =
            s\<lparr>system_cpu_usage_percent := c,
              system_memory_usage_bytes := real_of_int (mem_used m),
              system_memory_available_bytes := real_of_int (mem_available m),
              system_disk_usage_percent :=
                real_of_int (disk_used du) / real_of_int (disk_total du) * 100,
              app_uptime_seconds := time_now rd - start_time (system_monitor s),
              app_health_score := real_of_int h,
              database_connection_pool_size := real_of_int (randint rd),
              logger := logger s @ [LogError (''Error collecting system metrics: '' @ exc_str e)]\<rparr>)"
proof -
  have 1: "\<exists>s'. monitor_loop MONITORING_INTERVAL rds s slept
                 = Inr (s', slept @ replicate (length rds) MONITORING_INTERVAL)"
    using monitor_loop_runs [OF assms] .
  have 2: "monitor_loop MONITORING_INTERVAL (rd # rds) s slept
         = monitor_loop MONITORING_INTERVAL rds (collect_system_metrics rd s)
             (slept @ [MONITORING_INTERVAL])"
    using assms by (simp add: time_sleep_def)
  note 3 = collect_failure_logged [of rd s e]
  note 4 = collect_cpu_fails [of rd e s]
  note 5 = collect_memory_fails [of rd c e s]
  note 6 = collect_disk_fails [of rd c m e s]
  note 7 = collect_net_connections_fails [of rd c m du e s h]
  from 1 2 3 4 5 6 7 show ?thesis by blast
qed

text \<open>
  Two ticks with an interval of 30 seconds, the first with a failing disk reading: the
  loop is running after both, and the first tick logged the failure.
\<close>

theorem sampling_failure_is_contained_witness:
  "(0::int) \<le> 30
   \<and> (\<exists>s'. monitor_loop 30
              [demo_readings (Inl (OtherException ''PermissionError'' ''denied'')),
               demo_readings (Inr \<lparr>disk_used = 50, disk_total = 100\<rparr>)]
              (init_state 0) [] = Inr (s', [30, 30]))
   \<and> fst (collect_try (demo_readings (Inl (OtherException ''PermissionError'' ''denied'')))
            (init_state 0)) = Some (OtherException ''PermissionError'' ''denied'')
   \<and> logger (collect_system_metrics
               (demo_readings (Inl (OtherException ''PermissionError'' ''denied''))) (init_state 0))
       = [LogError ''Error collecting system metrics: denied'']
   \<and> active_connections (collect_system_metrics
               (demo_readings (Inl (OtherException ''PermissionError'' ''denied''))) (init_state 0))
       = 0"
proof -
  let ?e = "OtherException ''PermissionError'' ''denied''"
  let ?rdA = "demo_readings (Inl ?e)"
  let ?rdB = "demo_readings (Inr \<lparr>disk_used = 50, disk_total = 100\<rparr>)"
  have h: "(0::int) \<le> 30" by simp
  have f: "fst (collect_try ?rdA (init_state 0)) = Some ?e"
    by (simp add: collect_try_def demo_readings_def Let_def)
  have z: "logger (init_state 0) = []" "active_connections (init_state 0) = 0"
    by (simp_all add: init_state_def)
  from sampling_failure_is_contained [OF h, where rds = "[?rdA, ?rdB]" and s = "init_state 0"
      and slept = "[]"]
  have a: "\<exists>s'. monitor_loop 30 [?rdA, ?rdB] (init_state 0) [] = Inr (s', [30, 30])"
    by (simp add: numeral_2_eq_2)
  from sampling_failure_is_contained [OF h, where rd = ?rdA and s = "init_state 0" and e = ?e]
  have b: "logger (collect_system_metrics ?rdA (init_state 0))
             = [LogError ''Error collecting system metrics: denied'']
           \<and> active_connections (collect_system_metrics ?rdA (init_state 0)) = 0"
    using f z by simp
  from h a f b show ?thesis by blast
qed

text \<open>
  Claim C7, as stated, fails on the code: in a tick whose disk reading raises, the CPU
  and memory gauges have already been written, so not all gauge writes of a failing
  tick are skipped.
\<close>

theorem failing_tick_writes_gauges_counterexample:
  "fst (collect_try (demo_readings (Inl (OtherException ''PermissionError'' ''denied''))) (init_state 0))
     = Some (OtherException ''PermissionError'' ''denied'')
   \<and> system_cpu_usage_percent (init_state 0) = 0
   \<and> system_cpu_usage_percent
       (collect_system_metrics (demo_readings (Inl (OtherException ''PermissionError'' ''denied'')))
          (init_state 0)) = 42
   \<and> system_memory_usage_bytes
       (collect_system_metrics (demo_readings (Inl (OtherException ''PermissionError'' ''denied'')))
          (init_state 0)) = 4096"
  by (simp add: collect_system_metrics_def collect_try_def demo_readings_def init_state_def Let_def)


subsection \<open>The traffic generator\<close>

lemma random_choice_mem: "xs \<noteq> [] \<Longrightarrow> random_choice k xs \<in> set xs"
  by (simp add: random_choice_def)

lemma chosen_endpoint:
  "random_choice k endpoints \<in> set (endpoints @ error_endpoints)"
  "random_choice k error_endpoints \<in> set (endpoints @ error_endpoints)"
proof -
  have "endpoints \<noteq> []" "error_endpoints \<noteq> []"
    by (simp_all add: endpoints_def error_endpoints_def)
  then show "random_choice k endpoints \<in> set (endpoints @ error_endpoints)"
    "random_choice k error_endpoints \<in> set (endpoints @ error_endpoints)"
    using random_choice_mem [of endpoints k] random_choice_mem [of error_endpoints k] by auto
qed

lemma printed_line_is_report:
  "(if r_success (make_request g p)
    then PrintOk p (r_status_code (make_request g p)) (r_response_time (make_request g p))
    else PrintError p (case r_error (make_request g p) of Some m \<Rightarrow> m | None \<Rightarrow> ''Unknown''))
   = report_of p g"
  by (cases g) (simp_all add: make_request_def report_of_def)

lemma report_endpoint_report_of: "report_endpoint (report_of p g) = p"
  by (cases g) (simp_all add: report_endpoint_def report_of_def)

lemma worker_loop_paced:
  assumes "0 \<le> interval"
  shows "\<exists>evs. worker_loop base_url end_time interval ts = (evs, None)
           \<and> paced base_url (endpoints @ error_endpoints) interval
                (takeWhile (\<lambda>t. clock t < end_time) ts) evs"
proof (induction ts)
  case Nil
  then show ?case by simp
next
  case (Cons t ts)
  then obtain rest where rest: "worker_loop base_url end_time interval ts = (rest, None)"
    "paced base_url (endpoints @ error_endpoints) interval
       (takeWhile (\<lambda>t. clock t < end_time) ts) rest" by blast
  show ?case
  proof (cases "clock t < end_time")
    case True
    note m = chosen_endpoint [of "choice_index t"]
    from True rest assms m show ?thesis
      by (simp add: Let_def time_sleep_def printed_line_is_report report_endpoint_report_of)
  next
    case False
    then show ?thesis by simp
  qed
qed

lemma worker_paced:
  assumes "0 < rate"
  shows "\<exists>evs. worker base_url now ts duration rate = (evs, None)
           \<and> paced base_url (endpoints @ error_endpoints) (1 / rate)
                (takeWhile (\<lambda>t. clock t < now + real_of_int duration) ts) evs"
proof -
  have "0 \<le> 1 / rate" using assms by simp
  from worker_loop_paced [OF this, of base_url "now + real_of_int duration" ts]
  show ?thesis using assms by (simp add: worker_def py_float_truediv_def Let_def)
qed

lemma first_exception_None:
  "(\<forall>x \<in> set xs. snd (snd x) = None) \<Longrightarrow> first_exception xs = None"
  by (induction xs rule: first_exception.induct) auto

text \<open>
  Claim C9. With a positive aggregate rate and a positive number of threads the load
  test starts one worker per thread and gives each the same rate, the aggregate rate
  divided by the number of threads, so the rates add up to the aggregate rate. No worker
  raises. Worker \<open>i\<close> does one turn for each reading of its clock that lies before its
  end time, in order, and nothing else; a turn is a request to the base URL followed by
  one of the eight fixed endpoints, then the printed report of that request (a success
  with the status code and the response time of the answer, or a failure with the text
  of the exception), then a sleep of exactly 1 over the worker's rate.
\<close>

theorem load_is_split_and_paced:
  assumes rps: "0 < requests_per_second" and n: "0 < num_threads"
  shows "\<exists>workers. run_load_test base_url env duration requests_per_second num_threads = Inr workers
     \<and> length workers = nat num_threads
     \<and> (\<forall>i < nat num_threads.
           fst (workers ! i) = real_of_int requests_per_second / real_of_int num_threads
           \<and> paced base_url (endpoints @ error_endpoints) (1 / fst (workers ! i))
               (takeWhile (\<lambda>t. clock t < fst (env i) + real_of_int duration) (snd (env i)))
               (snd (workers ! i)))
     \<and> sum_list (map fst workers) = real_of_int requests_per_second"
proof -
  let ?rate = "real_of_int requests_per_second / real_of_int num_threads"
  let ?f = "\<lambda>i. (?rate, worker base_url (fst (env i)) (snd (env i)) duration ?rate)"
  let ?futures = "map ?f [0..<nat num_threads]"
  let ?workers = "map (\<lambda>(rate, evs, _). (rate, evs)) ?futures"
  have rate: "0 < ?rate" using rps n by simp
  have w: "\<exists>evs. worker base_url (fst (env i)) (snd (env i)) duration ?rate = (evs, None)
           \<and> paced base_url (endpoints @ error_endpoints) (1 / ?rate)
                (takeWhile (\<lambda>t. clock t < fst (env i) + real_of_int duration) (snd (env i))) evs"
    for i
    using worker_paced [OF rate] by blast
  have wn: "snd (worker base_url (fst (env i)) (snd (env i)) duration ?rate) = None" for i
    using w [of i] by auto
  have none: "\<forall>x \<in> set ?futures. snd (snd x) = None"
    by (simp add: wn)
  have fe: "first_exception ?futures = None"
    using first_exception_None [OF none] .
  have run: "run_load_test base_url env duration requests_per_second num_threads = Inr ?workers"
    using n fe by (simp add: run_load_test_def py_truediv_def Let_def)
  have len: "length ?workers = nat num_threads"
    by simp
  have each: "fst (?workers ! i) = ?rate
           \<and> paced base_url (endpoints @ error_endpoints) (1 / fst (?workers ! i))
               (takeWhile (\<lambda>t. clock t < fst (env i) + real_of_int duration) (snd (env i)))
               (snd (?workers ! i))"
    if "i < nat num_threads" for i
  proof -
    from that have nth: "?workers ! i
        = (?rate, fst (worker base_url (fst (env i)) (snd (env i)) duration ?rate))"
      by (simp add: case_prod_beta)
    from w [of i] show ?thesis unfolding nth by auto
  qed
  have total: "sum_list (map fst ?workers) = real_of_int requests_per_second"
  proof -
    have eq: "map fst ?workers = map (\<lambda>_. ?rate) [0..<nat num_threads]"
      by (simp add: case_prod_beta)
    have "sum_list (map (\<lambda>_. ?rate) [0..<nat num_threads]) = real (nat num_threads) * ?rate"
      by (simp add: sum_list_triv)
    with eq have "sum_list (map fst ?workers) = real (nat num_threads) * ?rate"
      by (simp only:)
    also have "\<dots> = real_of_int requests_per_second" using n by simp
    finally show ?thesis .
  qed
  from run len each total show ?thesis by blast
qed

text \<open>
  Ten requests per second on four threads for 60 seconds: each worker gets 2.5 requests
  per second. Its clock is before the end time at three turns, so it sends three
  requests in a row, the second of which fails, and sleeps 0.4 seconds after each.
\<close>

theorem load_is_split_and_paced_witness:
  "(0::int) < 10 \<and> (0::int) < 4
   \<and> run_load_test ''http://localhost:5001''
        (\<lambda>i. (0, [\<lparr>clock = 0, random_random = 1 / 2, choice_index = 7, got = Response 200 (1 / 4)\<rparr>,
                   \<lparr>clock = 1, random_random = 19 / 20, choice_index = 2,
                    got = GetRaises (OtherException ''ConnectionError'' ''refused'')\<rparr>,
                   \<lparr>clock = 2, random_random = 1 / 10, choice_index = 0, got = Response 500 (1 / 8)\<rparr>,
                   \<lparr>clock = 61, random_random = 1 / 2, choice_index = 0, got = Response 200 (1 / 4)\<rparr>]))
        60 10 4
     = Inr (replicate 4
             (5 / 2, [Request ''http://localhost:5001/api/health'',
                      Print (PrintOk ''/api/health'' 200 (1 / 4)), Sleep (2 / 5),
                      Request ''http://localhost:5001/error'',
                      Print (PrintError ''/error'' ''refused''), Sleep (2 / 5),
                      Request ''http://localhost:5001/'',
                      Print (PrintOk ''/'' 500 (1 / 8)), Sleep (2 / 5)]))
   \<and> paced ''http://localhost:5001'' (endpoints @ error_endpoints) (2 / 5)
        [\<lparr>clock = 0, random_random = 1 / 2, choice_index = 7, got = Response 200 (1 / 4)\<rparr>,
         \<lparr>clock = 1, random_random = 19 / 20, choice_index = 2,
          got = GetRaises (OtherException ''ConnectionError'' ''refused'')\<rparr>,
         \<lparr>clock = 2, random_random = 1 / 10, choice_index = 0, got = Response 500 (1 / 8)\<rparr>]
        [Request ''http://localhost:5001/api/health'',
         Print (PrintOk ''/api/health'' 200 (1 / 4)), Sleep (2 / 5),
         Request ''http://localhost:5001/error'',
         Print (PrintError ''/error'' ''refused''), Sleep (2 / 5),
         Request ''http://localhost:5001/'',
         Print (PrintOk ''/'' 500 (1 / 8)), Sleep (2 / 5)]"
proof -
  let ?ts = "[\<lparr>clock = 0, random_random = 1 / 2, choice_index = 7, got = Response 200 (1 / 4)\<rparr>,
              \<lparr>clock = 1, random_random = 19 / 20, choice_index = 2,
               got = GetRaises (OtherException ''ConnectionError'' ''refused'')\<rparr>,
              \<lparr>clock = 2, random_random = 1 / 10, choice_index = 0, got = Response 500 (1 / 8)\<rparr>,
              \<lparr>clock = 61, random_random = 1 / 2, choice_index = 0, got = Response 200 (1 / 4)\<rparr>]"
  let ?env = "\<lambda>i::nat. (0::real, ?ts)"
  let ?evs = "[Request ''http://localhost:5001/api/health'',
               Print (PrintOk ''/api/health'' 200 (1 / 4)), Sleep (2 / 5),
               Request ''http://localhost:5001/error'',
               Print (PrintError ''/error'' ''refused''), Sleep (2 / 5),
               Request ''http://localhost:5001/'',
               Print (PrintOk ''/'' 500 (1 / 8)), Sleep (2 / 5)]"
  have h1: "(0::int) < 10" and h2: "(0::int) < 4" by simp_all
  have ev: "run_load_test ''http://localhost:5001'' ?env 60 10 4 = Inr (replicate 4 (5 / 2, ?evs))"
    by code_simp
  from load_is_split_and_paced [OF h1 h2, of "''http://localhost:5001''" ?env 60]
  obtain workers where
    w: "run_load_test ''http://localhost:5001'' ?env 60 10 4 = Inr workers"
    and p: "\<forall>i < nat 4.
           fst (workers ! i) = real_of_int 10 / real_of_int 4
           \<and> paced ''http://localhost:5001'' (endpoints @ error_endpoints) (1 / fst (workers ! i))
               (takeWhile (\<lambda>t. clock t < fst (?env i) + real_of_int 60) (snd (?env i)))
               (snd (workers ! i))"
    by blast
  from w ev have workers: "workers = replicate 4 (5 / 2, ?evs)" by simp
  from p have p0: "paced ''http://localhost:5001'' (endpoints @ error_endpoints)
               (1 / fst (workers ! 0))
               (takeWhile (\<lambda>t. clock t < fst (?env 0) + real_of_int 60) (snd (?env 0)))
               (snd (workers ! 0))"
    by simp
  have "paced ''http://localhost:5001'' (endpoints @ error_endpoints) (2 / 5)
        [\<lparr>clock = 0, random_random = 1 / 2, choice_index = 7, got = Response 200 (1 / 4)\<rparr>,
         \<lparr>clock = 1, random_random = 19 / 20, choice_index = 2,
          got = GetRaises (OtherException ''ConnectionError'' ''refused'')\<rparr>,
         \<lparr>clock = 2, random_random = 1 / 10, choice_index = 0, got = Response 500 (1 / 8)\<rparr>]
        ?evs"
    using p0 unfolding workers by (simp add: report_endpoint_def report_of_def)
  with h1 h2 ev show ?thesis by blast
qed

end
